theory Spec2Isabelle
  imports Complex_Main "HOL-Library.Sublist"
begin

section \<open>Responses\<close>

text \<open>
  Every route module builds its answers with \<open>createErrorResponse\<close> and
  \<open>createSuccessResponse\<close>, both wrappers of \<open>NextResponse.json\<close>. A response is
  its HTTP status and its JSON body; a key of the body that the handler leaves
  \<open>undefined\<close> is absent from the JSON and is \<open>None\<close> here. The \<open>SuccessResponse\<close>
  interfaces of the route modules differ only in their optional keys, so one record
  with every optional key stands for all of them; \<open>'d\<close> is the type of \<open>data\<close>.
\<close>

record ErrorResponse =
  error :: string
  details :: "string option"

record 'd SuccessResponse =
  success :: bool
  message :: "string option"
  userId :: "string option"
  isActive :: "bool option"
  updatedCount :: "nat option"
  data :: "'d option"

record 'd NextResponse =
  status :: nat
  json :: "ErrorResponse + 'd SuccessResponse"

definition createErrorResponse :: "string \<Rightarrow> nat \<Rightarrow> string option \<Rightarrow> 'd NextResponse" where
  "createErrorResponse msg st det = \<lparr>status = st, json = Inl \<lparr>error = msg, details = det\<rparr>\<rparr>"

definition createSuccessResponse :: "'d SuccessResponse \<Rightarrow> 'd NextResponse" where
  "createSuccessResponse d = \<lparr>status = 200, json = Inr d\<rparr>"

definition success_true :: "'d SuccessResponse" where
  \<comment> \<open>the object literal \<open>{ success: true }\<close>, every other key absent\<close>
  "success_true = \<lparr>success = True, message = None, userId = None, isActive = None,
     updatedCount = None, data = None\<rparr>"

text \<open>
  The message literals of the user routes are Japanese in the source; they are named
  here and spelt by their meaning. The other routes' literals are the source's.
\<close>

definition MSG_REQUIRED_MISSING :: string where
  "MSG_REQUIRED_MISSING = ''Required fields are missing''"
definition MSG_AUTH_REQUIRED :: string where
  "MSG_AUTH_REQUIRED = ''Authentication is required''"
definition MSG_NO_PERMISSION :: string where
  "MSG_NO_PERMISSION = ''No permission''"
definition MSG_USER_CREATE_FAILED :: string where
  "MSG_USER_CREATE_FAILED = ''Failed to create the user''"
definition MSG_PROFILE_CREATE_FAILED :: string where
  "MSG_PROFILE_CREATE_FAILED = ''Failed to create the profile''"
definition MSG_USER_CREATED :: string where
  "MSG_USER_CREATED = ''The user was created''"
definition MSG_SERVER_ERROR :: string where
  "MSG_SERVER_ERROR = ''A server error occurred''"
definition MSG_USER_FETCH_FAILED :: string where
  "MSG_USER_FETCH_FAILED = ''Failed to fetch the user''"
definition MSG_ADMIN_NOT_DELETABLE :: string where
  "MSG_ADMIN_NOT_DELETABLE = ''Headquarters users cannot be deleted''"
definition MSG_USER_DELETE_FAILED :: string where
  "MSG_USER_DELETE_FAILED = ''Failed to delete the user''"
definition MSG_PROFILE_DELETE_FAILED :: string where
  "MSG_PROFILE_DELETE_FAILED = ''Failed to delete the profile''"
definition MSG_AUTH_UPDATE_FAILED :: string where
  "MSG_AUTH_UPDATE_FAILED = ''Failed to update the credentials''"
definition MSG_PROFILE_UPDATE_FAILED :: string where
  "MSG_PROFILE_UPDATE_FAILED = ''Failed to update the profile''"

definition truthy :: "string option \<Rightarrow> bool" where
  \<comment> \<open>JavaScript truthiness of a \<open>string | undefined\<close>: \<open>undefined\<close> and \<open>""\<close> are falsy\<close>
  "truthy v = (case v of None \<Rightarrow> False | Some s \<Rightarrow> s \<noteq> [])"

definition or_else :: "string \<Rightarrow> string \<Rightarrow> string" where
  \<comment> \<open>\<open>a || b\<close> on strings\<close>
  "or_else a b = (if a = [] then b else a)"

section \<open>The identity provider and the relational store\<close>

text \<open>
  The handlers talk to two collaborators, the identity provider (\<open>supabase.auth\<close>) and
  the relational store (\<open>supabase.from(...)\<close>, \<open>prisma\<close>). The sources hold neither
  their code nor the schema of the tables, so their operations are modelled from the
  interfaces that the specification lists and from the way the handlers read their
  answers: the Supabase client answers with \<open>{ data, error }\<close> and does not throw, the
  Prisma client throws. Their state and their answers are a \<open>world\<close>, which every
  handler takes and returns; a handler call is one request.
  Field names carry a prefix where two interfaces of the source share a name.
\<close>

record Session =
  user_id :: string
  user_metadata_company_code :: "string option"

record SessionData =
  session :: "Session option"

record Identity =
  idn_email :: string
  idn_password :: string
  idn_company_code :: string
  idn_role :: string

record Profile =
  p_id :: string
  p_company_code :: string
  p_role :: string
  p_store_name :: "string option"
  p_group :: "string option"
  p_company_id :: "string option"

record StoreItem_row =
  si_store_menu_item_id :: int
  si_menu_id :: int
  si_menu_name :: string
  si_price :: real
  si_status :: bool
  si_store_id :: string

record MenuCsv_row =
  menu_sys :: string
  menu_code :: string

record StoreMenuItem_row =
  smi_store_id :: string
  smi_menu_name :: string
  smi_status :: bool
  smi_price :: real
  smi_updated_at :: nat

record Ingredient_row =
  ing_ingredient_id :: int
  ing_material_system_code :: string
  ing_name :: string
  ing_date :: string
  ing_quantity :: real
  ing_store_id :: string

record MenuItem_row =
  mi_menu_id :: int
  mi_name :: string
  mi_price :: real
  mi_status :: bool
  mi_description :: "string option"
  mi_K :: bool
  mi_other :: "string option"
  mi_updated_at :: nat

datatype call =
    Auth_getSession
  | Profiles_select string
  | Auth_admin_createUser string
  | Profiles_insert string
  | Auth_admin_deleteUser string
  | Auth_admin_updateUserById string
  | Profiles_update string
  | Profiles_delete string
  | StoreItem_select string
  | MenuCsv_select
  | StoreMenuItem_update string string
  | Ingredient_select
  | MenuItem_findFirst string
  | MenuItem_updateMany string

text \<open>
  \<^item> \<open>cookie_session\<close>, \<open>session_error\<close>: what the provider resolves for the
    request's cookies.
  \<^item> \<open>identities\<close>, \<open>Profiles_table\<close>: the provider's users and the \<open>Profiles\<close> table, both
    keyed by the user id; \<open>next_user_id\<close> is the id the provider gives the user that
    this request creates, if it creates one.
  \<^item> the other tables are their rows in fetch order.
  \<^item> \<open>others\<close>: what other clients write to \<open>MenuItem\<close> between the two statements
    that the catalog update issues together; \<open>now\<close>: the clock.
  \<^item> \<open>rejects\<close>: the calls that the collaborator answers with an error (the message),
    beyond the errors that the data cause. Every call of the store and every call of
    the provider but \<open>getSession\<close>, whose error is \<open>session_error\<close>, consults it.
  \<^item> \<open>calls\<close>: the calls issued so far, oldest first.
\<close>

record world =
  cookie_session :: "Session option"
  session_error :: "string option"
  identities :: "string \<rightharpoonup> Identity"
  next_user_id :: string
  Profiles_table :: "string \<rightharpoonup> Profile"
  StoreItem_table :: "StoreItem_row list"
  MenuCsv_table :: "MenuCsv_row list"
  StoreMenuItem_table :: "StoreMenuItem_row list"
  Ingredient_table :: "Ingredient_row list"
  MenuItem_table :: "MenuItem_row list"
  others :: "MenuItem_row list \<Rightarrow> MenuItem_row list"
  now :: nat
  rejects :: "call \<Rightarrow> string option"
  calls :: "call list"

definition issue :: "call \<Rightarrow> world \<Rightarrow> world" where
  "issue c w = w\<lparr>calls := calls w @ [c]\<rparr>"

definition auth_getSession :: "world \<Rightarrow> (SessionData \<times> string option) \<times> world" where
  \<comment> \<open>Modelled from the spec: the provider's \<open>resolveSession\<close>, called as
      \<open>supabase.auth.getSession()\<close>. It answers \<open>{ data: { session }, error }\<close>, where
      \<open>data\<close> is always an object and \<open>data.session\<close> is the session or \<open>null\<close>.\<close>
  "auth_getSession w =
     ((\<lparr>session = cookie_session w\<rparr>, session_error w), issue Auth_getSession w)"

definition Profiles_single :: "string \<Rightarrow> world \<Rightarrow> (string + Profile) \<times> world" where
  \<comment> \<open>Modelled from the spec: the store's \<open>select\<close> with an equality filter, called as
      \<open>from("Profiles").select(..).eq("id", uid).single()\<close>: the row with the id, or an
      error, when the store refuses the read or when no row has the id.\<close>
  "Profiles_single uid w =
     ((case rejects w (Profiles_select uid) of
         Some msg \<Rightarrow> Inl msg
       | None \<Rightarrow>
           (case Profiles_table w uid of None \<Rightarrow> Inl ''no rows returned'' | Some p \<Rightarrow> Inr p)),
      issue (Profiles_select uid) w)"

definition auth_admin_createUser ::
  "string \<Rightarrow> string \<Rightarrow> string \<Rightarrow> string \<Rightarrow> world \<Rightarrow> (string + string) \<times> world" where
  \<comment> \<open>Modelled from the spec: the provider's \<open>createIdentity\<close>, called as
      \<open>auth.admin.createUser\<close>: the error message, or the new user's id.\<close>
  "auth_admin_createUser email password company_code role w =
     (let w' = issue (Auth_admin_createUser email) w in
      case rejects w (Auth_admin_createUser email) of
        Some msg \<Rightarrow> (Inl msg, w')
      | None \<Rightarrow>
          (Inr (next_user_id w),
           w'\<lparr>identities := (identities w)(next_user_id w \<mapsto>
             \<lparr>idn_email = email, idn_password = password,
              idn_company_code = company_code, idn_role = role\<rparr>)\<rparr>))"

definition Profiles_insert_error :: "string \<Rightarrow> world \<Rightarrow> string option" where
  \<comment> \<open>Modelled from the spec: why the store's \<open>insert\<close> refuses a new row with this id,
      if it does.\<close>
  "Profiles_insert_error uid w =
     (case rejects w (Profiles_insert uid) of
        Some msg \<Rightarrow> Some msg
      | None \<Rightarrow> if Profiles_table w uid \<noteq> None then Some ''duplicate key'' else None)"

definition Profiles_insert_row :: "Profile \<Rightarrow> world \<Rightarrow> string option \<times> world" where
  \<comment> \<open>Modelled from the spec: the store's \<open>insert\<close>, called as
      \<open>from("Profiles").insert([row])\<close>: the error message, if any.\<close>
  "Profiles_insert_row row w =
     (let w' = issue (Profiles_insert (p_id row)) w in
      case Profiles_insert_error (p_id row) w of
        Some msg \<Rightarrow> (Some msg, w')
      | None \<Rightarrow> (None, w'\<lparr>Profiles_table := (Profiles_table w)(p_id row \<mapsto> row)\<rparr>))"

definition auth_admin_deleteUser :: "string \<Rightarrow> world \<Rightarrow> string option \<times> world" where
  \<comment> \<open>Modelled from the spec: the provider's \<open>deleteIdentity\<close>, called as
      \<open>auth.admin.deleteUser(uid)\<close>: the error message, if any.\<close>
  "auth_admin_deleteUser uid w =
     (let w' = issue (Auth_admin_deleteUser uid) w in
      case rejects w (Auth_admin_deleteUser uid) of
        Some msg \<Rightarrow> (Some msg, w')
      | None \<Rightarrow>
          if identities w uid = None then (Some ''User not found'', w')
          else (None, w'\<lparr>identities := (identities w)(uid := None)\<rparr>))"

definition auth_admin_updateUserById ::
  "string \<Rightarrow> string option \<Rightarrow> string option \<Rightarrow> world \<Rightarrow> string option \<times> world" where
  \<comment> \<open>Modelled from the spec: the provider's \<open>updateIdentity\<close>, called as
      \<open>auth.admin.updateUserById(uid, { email?, password? })\<close>.\<close>
  "auth_admin_updateUserById uid email password w =
     (let w' = issue (Auth_admin_updateUserById uid) w in
      case rejects w (Auth_admin_updateUserById uid) of
        Some msg \<Rightarrow> (Some msg, w')
      | None \<Rightarrow>
          (case identities w uid of
             None \<Rightarrow> (Some ''User not found'', w')
           | Some i \<Rightarrow>
               (None, w'\<lparr>identities := (identities w)(uid \<mapsto>
                  i\<lparr>idn_email := (case email of None \<Rightarrow> idn_email i | Some e \<Rightarrow> e),
                    idn_password := (case password of None \<Rightarrow> idn_password i | Some p \<Rightarrow> p)\<rparr>)\<rparr>)))"

text \<open>
  The values of a \<open>Profiles\<close> update. A key whose value is \<open>undefined\<close> is not sent and
  its column keeps its value (\<open>None\<close>); \<open>store_name\<close> can also be sent as \<open>null\<close>
  (\<open>Some None\<close>).
\<close>

record ProfileUpdate =
  upd_company_code :: "string option"
  upd_role :: "string option"
  upd_store_name :: "string option option"
  upd_group :: "string option"

definition apply_ProfileUpdate :: "ProfileUpdate \<Rightarrow> Profile \<Rightarrow> Profile" where
  "apply_ProfileUpdate u p =
     p\<lparr>p_company_code := (case upd_company_code u of None \<Rightarrow> p_company_code p | Some c \<Rightarrow> c),
       p_role := (case upd_role u of None \<Rightarrow> p_role p | Some r \<Rightarrow> r),
       p_store_name := (case upd_store_name u of None \<Rightarrow> p_store_name p | Some s \<Rightarrow> s),
       p_group := (case upd_group u of None \<Rightarrow> p_group p | Some g \<Rightarrow> Some g)\<rparr>"

definition Profiles_update_single ::
  "string \<Rightarrow> ProfileUpdate \<Rightarrow> world \<Rightarrow> (string + Profile) \<times> world" where
  \<comment> \<open>Modelled from the spec: the store's \<open>update\<close>, called as
      \<open>from("Profiles").update(values).eq("id", uid).select().single()\<close>: the updated
      row, or an error (also when no row has the id).\<close>
  "Profiles_update_single uid u w =
     (let w' = issue (Profiles_update uid) w in
      case rejects w (Profiles_update uid) of
        Some msg \<Rightarrow> (Inl msg, w')
      | None \<Rightarrow>
          (case Profiles_table w uid of
             None \<Rightarrow> (Inl ''no rows returned'', w')
           | Some p \<Rightarrow>
               (Inr (apply_ProfileUpdate u p),
                w'\<lparr>Profiles_table := (Profiles_table w)(uid \<mapsto> apply_ProfileUpdate u p)\<rparr>)))"

definition Profiles_delete_eq :: "string \<Rightarrow> world \<Rightarrow> string option \<times> world" where
  \<comment> \<open>Modelled from the spec: the store's \<open>delete\<close>, called as
      \<open>from("Profiles").delete().eq("id", uid)\<close>.\<close>
  "Profiles_delete_eq uid w =
     (let w' = issue (Profiles_delete uid) w in
      case rejects w (Profiles_delete uid) of
        Some msg \<Rightarrow> (Some msg, w')
      | None \<Rightarrow> (None, w'\<lparr>Profiles_table := (Profiles_table w)(uid := None)\<rparr>))"

section \<open>The user routes\<close>

record CreateUserRequest =
  cu_companyCode :: "string option"
  cu_password :: "string option"
  cu_role :: "string option"
  cu_storeName :: "string option"
  cu_group :: "string option"

record UpdateUserRequest =
  uu_company_code :: "string option"
  uu_password :: "string option"
  uu_role :: "string option"
  uu_store_name :: "string option"
  uu_group :: "string option"

text \<open>
  \<open>POST /users\<close>. The request is \<open>None\<close> when \<open>request.json()\<close> throws; the \<open>catch\<close>
  answers 500. The result of the compensating \<open>deleteUser\<close> is not looked at.
\<close>

definition POST_users :: "CreateUserRequest option \<Rightarrow> world \<Rightarrow> unit NextResponse \<times> world" where
  "POST_users request w0 =
     (case request of
        None \<Rightarrow> (createErrorResponse MSG_SERVER_ERROR 500 None, w0)
      | Some body \<Rightarrow>
         (if \<not> truthy (cu_companyCode body) \<or> \<not> truthy (cu_password body) \<or> \<not> truthy (cu_role body)
          then (createErrorResponse MSG_REQUIRED_MISSING 400 None, w0)
          else
            let companyCode = the (cu_companyCode body);
                password = the (cu_password body);
                role = the (cu_role body);
                ((sdata, _), w1) = auth_getSession w0
            in (case session sdata of
                  None \<Rightarrow> (createErrorResponse MSG_AUTH_REQUIRED 401 None, w1)
                | Some s \<Rightarrow>
                   (let (currentUser, w2) = Profiles_single (user_id s) w1 in
                    if (case currentUser of Inl _ \<Rightarrow> True | Inr p \<Rightarrow> p_role p \<noteq> ''admin'')
                    then (createErrorResponse MSG_NO_PERMISSION 403 None, w2)
                    else
                      let (created, w3) =
                            auth_admin_createUser (companyCode @ ''@example.com'') password
                              companyCode role w2
                      in (case created of
                            Inl msg \<Rightarrow>
                              (createErrorResponse (or_else msg MSG_USER_CREATE_FAILED) 400 None, w3)
                          | Inr uid \<Rightarrow>
                             (let (insertError, w4) =
                                    Profiles_insert_row
                                      \<lparr>p_id = uid, p_company_code = companyCode, p_role = role,
                                       p_store_name =
                                         (if role = ''store'' then cu_storeName body else None),
                                       p_group = cu_group body, p_company_id = None\<rparr> w3
                              in (case insertError of
                                    Some msg \<Rightarrow>
                                     (let (_, w5) = auth_admin_deleteUser uid w4 in
                                      (createErrorResponse
                                         (or_else msg MSG_PROFILE_CREATE_FAILED) 400 None, w5))
                                  | None \<Rightarrow>
                                      (createSuccessResponse
                                         (success_true\<lparr>message := Some MSG_USER_CREATED,
                                            userId := Some uid\<rparr>), w4))))))))"

text \<open>\<open>DELETE /users/{userId}\<close>. The handler reads neither the request nor the cookies.\<close>

definition DELETE_user :: "string \<Rightarrow> world \<Rightarrow> unit NextResponse \<times> world" where
  "DELETE_user uid w0 =
     (let (fetched, w1) = Profiles_single uid w0 in
      (case fetched of
         Inl _ \<Rightarrow> (createErrorResponse MSG_USER_FETCH_FAILED 404 None, w1)
       | Inr userToDelete \<Rightarrow>
          (if p_role userToDelete = ''admin''
           then (createErrorResponse MSG_ADMIN_NOT_DELETABLE 403 None, w1)
           else
             let (authError, w2) = auth_admin_deleteUser uid w1 in
             (case authError of
                Some _ \<Rightarrow> (createErrorResponse MSG_USER_DELETE_FAILED 500 None, w2)
              | None \<Rightarrow>
                 (let (profileError, w3) = Profiles_delete_eq uid w2 in
                  (case profileError of
                     Some _ \<Rightarrow> (createErrorResponse MSG_PROFILE_DELETE_FAILED 500 None, w3)
                   | None \<Rightarrow> (createSuccessResponse success_true, w3)))))))"

text \<open>
  \<open>PATCH /users/{userId}\<close>. \<open>store_name\<close> is sent as \<open>body.store_name\<close> when the role
  of the body is \<open>"store"\<close> and as \<open>null\<close> otherwise, also when the body has no role.
  The request is the body, or the message of the error that \<open>request.json()\<close> throws,
  which the \<open>catch\<close> passes as \<open>details\<close>.
\<close>

definition PATCH_updateData :: "UpdateUserRequest \<Rightarrow> ProfileUpdate" where
  "PATCH_updateData body =
     \<lparr>upd_company_code = uu_company_code body,
      upd_role = uu_role body,
      upd_store_name =
        (if uu_role body = Some ''store'' then map_option Some (uu_store_name body)
         else Some None),
      upd_group = uu_group body\<rparr>"

definition PATCH_user ::
  "string \<Rightarrow> string + UpdateUserRequest \<Rightarrow> world \<Rightarrow> Profile NextResponse \<times> world" where
  "PATCH_user uid request w0 =
     (case request of
        Inl thrown \<Rightarrow> (createErrorResponse MSG_SERVER_ERROR 500 (Some thrown), w0)
      | Inr body \<Rightarrow>
         (let ((sdata, _), w1) = auth_getSession w0 in
          (case session sdata of
             None \<Rightarrow> (createErrorResponse MSG_AUTH_REQUIRED 401 None, w1)
           | Some s \<Rightarrow>
              (let (currentUser, w2) = Profiles_single (user_id s) w1 in
               if (case currentUser of Inl _ \<Rightarrow> True | Inr p \<Rightarrow> p_role p \<noteq> ''admin'')
               then (createErrorResponse MSG_NO_PERMISSION 403 None, w2)
               else
                 let email = (if truthy (uu_company_code body)
                              then Some (the (uu_company_code body) @ ''@example.com'') else None);
                     password = (if truthy (uu_password body) then uu_password body else None);
                     (updateAuthError, w3) =
                       (if email \<noteq> None \<or> password \<noteq> None
                        then auth_admin_updateUserById uid email password w2
                        else (None, w2))
                 in (case updateAuthError of
                       Some _ \<Rightarrow> (createErrorResponse MSG_AUTH_UPDATE_FAILED 500 None, w3)
                     | None \<Rightarrow>
                        (let (updated, w4) =
                               Profiles_update_single uid (PATCH_updateData body) w3
                         in (case updated of
                               Inl msg \<Rightarrow>
                                 (createErrorResponse MSG_PROFILE_UPDATE_FAILED 500 (Some msg), w4)
                             | Inr updatedProfile \<Rightarrow>
                                 (createSuccessResponse
                                    (success_true\<lparr>data := Some updatedProfile\<rparr>), w4))))))))"

section \<open>Arrays and strings of the JavaScript library\<close>

fun findIndex_from :: "nat \<Rightarrow> ('a \<Rightarrow> bool) \<Rightarrow> 'a list \<Rightarrow> int" where
  "findIndex_from k P [] = - 1"
| "findIndex_from k P (x # xs) = (if P x then int k else findIndex_from (Suc k) P xs)"

definition findIndex :: "('a \<Rightarrow> bool) \<Rightarrow> 'a list \<Rightarrow> int" where
  \<comment> \<open>\<open>Array.prototype.findIndex\<close>: the first index whose element passes, or \<open>-1\<close>\<close>
  "findIndex P xs = findIndex_from 0 P xs"

definition filter_indexed :: "('a \<Rightarrow> nat \<Rightarrow> 'a list \<Rightarrow> bool) \<Rightarrow> 'a list \<Rightarrow> 'a list" where
  \<comment> \<open>\<open>Array.prototype.filter\<close> with a callback \<open>(item, index, self)\<close>\<close>
  "filter_indexed f self =
     map fst (filter (\<lambda>(item, index). f item index self) (zip self [0..<length self]))"

fun split_comma :: "string \<Rightarrow> string list" where
  \<comment> \<open>\<open>s.split(",")\<close>: the pieces between the commas; \<open>"".split(",")\<close> is \<open>[""]\<close>\<close>
  "split_comma [] = [[]]"
| "split_comma (c # cs) =
     (if c = CHR '','' then [] # split_comma cs
      else (c # hd (split_comma cs)) # tl (split_comma cs))"

fun digits_of :: "nat \<Rightarrow> string" where
  "digits_of n =
     (if n < 10 then [''0123456789'' ! n]
      else digits_of (n div 10) @ [''0123456789'' ! (n mod 10)])"

definition toString :: "int \<Rightarrow> string" where
  \<comment> \<open>\<open>Number.prototype.toString\<close> on a number that is an integer: its decimal digits.
      This is what JavaScript gives up to \<open>2^53\<close> in magnitude, the range of the integers
      that a number holds exactly; beyond it JavaScript rounds the digits, and from
      \<open>10^21\<close> on it writes an exponent, neither of which is modelled.\<close>
  "toString i = (if i < 0 then CHR ''-'' # digits_of (nat (- i)) else digits_of (nat i))"

section \<open>The store menu route\<close>

record TransformedMenuItem =
  t_id :: int
  t_menuId :: int
  t_menu_code :: "string option"
  t_name :: string
  t_price :: real
  t_isActive :: bool

record UpdateMenuItemRequest =
  um_name :: string
  um_isActive :: "bool option"
  um_price :: "real option"

record StoreMenuItemUpdate =
  upd_status :: "bool option"
  upd_price :: "real option"
  upd_updated_at :: nat

definition StoreItem_select_eq :: "string \<Rightarrow> world \<Rightarrow> StoreItem_row list option \<times> world" where
  \<comment> \<open>Modelled from the spec: the store's \<open>select\<close>, called as
      \<open>from("StoreItem").select("*").eq("store_id", store)\<close>: its \<open>data\<close>, which is
      \<open>null\<close> on an error.\<close>
  "StoreItem_select_eq store w =
     ((case rejects w (StoreItem_select store) of
         Some _ \<Rightarrow> None
       | None \<Rightarrow> Some (filter (\<lambda>r. si_store_id r = store) (StoreItem_table w))),
      issue (StoreItem_select store) w)"

definition MenuCsv_select_all :: "world \<Rightarrow> MenuCsv_row list option \<times> world" where
  \<comment> \<open>Modelled from the spec: the store's \<open>select\<close>, called as
      \<open>from("MenuCsv").select("menu_sys, menu_code")\<close>: its \<open>data\<close>, which is \<open>null\<close>
      on an error.\<close>
  "MenuCsv_select_all w =
     ((case rejects w MenuCsv_select of None \<Rightarrow> Some (MenuCsv_table w) | Some _ \<Rightarrow> None),
      issue MenuCsv_select w)"

definition apply_StoreMenuItemUpdate :: "StoreMenuItemUpdate \<Rightarrow> StoreMenuItem_row \<Rightarrow> StoreMenuItem_row" where
  "apply_StoreMenuItemUpdate u r =
     r\<lparr>smi_status := (case upd_status u of None \<Rightarrow> smi_status r | Some b \<Rightarrow> b),
       smi_price := (case upd_price u of None \<Rightarrow> smi_price r | Some p \<Rightarrow> p),
       smi_updated_at := upd_updated_at u\<rparr>"

definition StoreMenuItem_update_eq ::
  "StoreMenuItemUpdate \<Rightarrow> string \<Rightarrow> string \<Rightarrow> world \<Rightarrow> string option \<times> world" where
  \<comment> \<open>Modelled from the spec: the store's \<open>update\<close>, called as
      \<open>from("StoreMenuItem").update(values).eq("store_id", store).eq("menu_name", name)\<close>:
      the error message, if any.\<close>
  "StoreMenuItem_update_eq u store name w =
     (let w' = issue (StoreMenuItem_update store name) w in
      case rejects w (StoreMenuItem_update store name) of
        Some msg \<Rightarrow> (Some msg, w')
      | None \<Rightarrow>
          (None, w'\<lparr>StoreMenuItem_table :=
             map (\<lambda>r. if smi_store_id r = store \<and> smi_menu_name r = name
                       then apply_StoreMenuItemUpdate u r else r) (StoreMenuItem_table w)\<rparr>))"

definition uniqueMenuItems :: "StoreItem_row list \<Rightarrow> StoreItem_row list" where
  "uniqueMenuItems menuItems =
     filter_indexed
       (\<lambda>item index self. int index = findIndex (\<lambda>t. si_menu_id t = si_menu_id item) self)
       menuItems"

definition transformItem :: "MenuCsv_row list option \<Rightarrow> StoreItem_row \<Rightarrow> TransformedMenuItem" where
  "transformItem menuCsvs item =
     \<lparr>t_id = si_store_menu_item_id item,
      t_menuId = si_menu_id item,
      t_menu_code =
        (case menuCsvs of
           None \<Rightarrow> None
         | Some csvs \<Rightarrow>
             map_option menu_code
               (find (\<lambda>csv. menu_sys csv = toString (si_menu_id item)) csvs)),
      t_name = si_menu_name item,
      t_price = si_price item,
      t_isActive = si_status item\<rparr>"

text \<open>
  The deduplication in the words of the specification: going through the rows in fetch
  order, a row is kept when no row before it had its \<open>menu_id\<close>, and dropped otherwise.
  \<open>seen\<close> are the \<open>menu_id\<close>s met so far.
\<close>

fun keep_first :: "int set \<Rightarrow> StoreItem_row list \<Rightarrow> StoreItem_row list" where
  "keep_first seen [] = []"
| "keep_first seen (x # xs) =
     (if si_menu_id x \<in> seen then keep_first seen xs
      else x # keep_first (insert (si_menu_id x) seen) xs)"

text \<open>
  The checks that \<open>GET\<close> and \<open>PUT /menu-items\<close> share: a session (401), a profile with
  a non-empty \<open>company_id\<close> (404) that is not \<open>"admin"\<close> (403). The result is the
  refusal, or the caller's \<open>company_id\<close>.
\<close>

definition store_scope ::
  "world \<Rightarrow> (nat \<times> string + string) \<times> world" where
  "store_scope w0 =
     (let ((sdata, sessionError), w1) = auth_getSession w0 in
      (case session sdata of
         None \<Rightarrow> (Inl (401, ''Authentication required. Please log in to continue.''), w1)
       | Some s \<Rightarrow>
          (if sessionError \<noteq> None
           then (Inl (401, ''Authentication required. Please log in to continue.''), w1)
           else
             let (profile, w2) = Profiles_single (user_id s) w1 in
             (case profile of
                Inl _ \<Rightarrow> (Inl (404, ''Store profile not found. Please contact support.''), w2)
              | Inr p \<Rightarrow>
                 (if \<not> truthy (p_company_id p)
                  then (Inl (404, ''Store profile not found. Please contact support.''), w2)
                  else if p_company_id p = Some ''admin''
                  then (Inl (403, ''Headquarters users should manage menus through the Available Menu page instead of the Menu Settings page.''), w2)
                  else (Inr (the (p_company_id p)), w2))))))"

definition GET_menu_items :: "world \<Rightarrow> TransformedMenuItem list NextResponse \<times> world" where
  "GET_menu_items w0 =
     (let (scope, w2) = store_scope w0 in
      (case scope of
         Inl (st, msg) \<Rightarrow> (createErrorResponse msg st None, w2)
       | Inr company_id \<Rightarrow>
          (let (menuItems, w3) = StoreItem_select_eq company_id w2;
               (menuCsvs, w4) = MenuCsv_select_all w3;
               transformedItems =
                 map_option (\<lambda>items. map (transformItem menuCsvs) (uniqueMenuItems items))
                   menuItems
           in (createSuccessResponse (success_true\<lparr>data := transformedItems\<rparr>), w4))))"

text \<open>
  \<open>PUT /menu-items\<close>. The body is read after the checks; it is \<open>None\<close> when
  \<open>request.json()\<close> throws.
\<close>

definition PUT_menu_items ::
  "UpdateMenuItemRequest option \<Rightarrow> world \<Rightarrow> unit NextResponse \<times> world" where
  "PUT_menu_items request w0 =
     (let (scope, w2) = store_scope w0 in
      (case scope of
         Inl (st, msg) \<Rightarrow> (createErrorResponse msg st None, w2)
       | Inr company_id \<Rightarrow>
          (case request of
             None \<Rightarrow>
               (createErrorResponse
                  ''An unexpected error occurred while updating the menu item'' 500 None, w2)
           | Some body \<Rightarrow>
              (let (updateError, w3) =
                     StoreMenuItem_update_eq
                       \<lparr>upd_status = map_option Not (um_isActive body),
                        upd_price = um_price body,
                        upd_updated_at = now w2\<rparr>
                       company_id (um_name body) w2
               in (case updateError of
                     Some _ \<Rightarrow>
                       (createErrorResponse
                          ''Unable to update menu item. Please try again later.'' 500 None, w3)
                   | None \<Rightarrow>
                       (createSuccessResponse
                          (success_true\<lparr>isActive := map_option Not (um_isActive body)\<rparr>),
                        w3))))))"

section \<open>The ingredients route\<close>

record Ingredient =
  ingredient_id :: int
  material_system_code :: string
  name :: string
  date :: string
  quantity :: real

definition Ingredient_select_eq_in ::
  "string option \<Rightarrow> string list \<Rightarrow> world \<Rightarrow> (string + Ingredient list) \<times> world" where
  \<comment> \<open>Modelled from the spec: the store's \<open>select\<close> with an equality and an \<open>in\<close>
      filter, called as
      \<open>from("Ingredient").select(..).eq("store_id", storeId).in("date", weekDates)\<close>.
      The client writes the filter value into the query as text, so a \<open>storeId\<close> that is
      \<open>undefined\<close> is compared as the text \<open>undefined\<close>.\<close>
  "Ingredient_select_eq_in storeId weekDates w =
     ((case rejects w Ingredient_select of
         Some msg \<Rightarrow> Inl msg
       | None \<Rightarrow>
           Inr (map (\<lambda>r. \<lparr>ingredient_id = ing_ingredient_id r,
                          material_system_code = ing_material_system_code r,
                          name = ing_name r, date = ing_date r, quantity = ing_quantity r\<rparr>)
                  (filter (\<lambda>r. ing_store_id r = (case storeId of None \<Rightarrow> ''undefined'' | Some v \<Rightarrow> v)
                                \<and> ing_date r \<in> set weekDates)
                     (Ingredient_table w)))),
      issue Ingredient_select w)"

definition object_truthy :: "SessionData \<Rightarrow> bool" where
  \<comment> \<open>a JavaScript object is truthy, whatever its keys hold\<close>
  "object_truthy d = True"

text \<open>
  \<open>GET /ingredients\<close>. The request is its query parameters. The handler destructures
  \<open>{ data: session }\<close>, so its \<open>session\<close> is the \<open>data\<close> object of \<open>getSession\<close>, and the
  session proper is \<open>session.session\<close>.
\<close>

definition GET_ingredients ::
  "(string \<times> string) list \<Rightarrow> world \<Rightarrow> Ingredient list NextResponse \<times> world" where
  "GET_ingredients searchParams w0 =
     (let weekDates =
            (case map_of searchParams ''weekDates'' of
               None \<Rightarrow> []
             | Some v \<Rightarrow> split_comma v)
      in if length weekDates = 0
         then (createErrorResponse ''Please provide week dates to fetch ingredients'' 400 None, w0)
         else
           let ((sdata, _), w1) = auth_getSession w0 in
           if \<not> object_truthy sdata
           then (createErrorResponse
                   ''Authentication required. Please log in to continue.'' 401 None, w1)
           else
             let storeId =
                   (case session sdata of
                      None \<Rightarrow> None
                    | Some s \<Rightarrow> user_metadata_company_code s);
                 (ingredients, w2) = Ingredient_select_eq_in storeId weekDates w1
             in (case ingredients of
                   Inl _ \<Rightarrow>
                     (createErrorResponse
                        ''Unable to fetch ingredients. Please try again later.'' 500 None, w2)
                 | Inr rows \<Rightarrow>
                     (createSuccessResponse (success_true\<lparr>data := Some rows\<rparr>), w2)))"

section \<open>The catalog menu route\<close>

record CatalogUpdateRequest =
  cm_name :: string
  cm_isActive :: "bool option"
  cm_price :: "real option"
  cm_K :: "bool option"
  cm_other :: "string option option"

text \<open>
  The \<open>data\<close> of \<open>prisma.menuItem.updateMany\<close>: a column is written when its key of the
  body is not \<open>undefined\<close>; \<open>updated_at\<close> is always written.
\<close>

definition apply_catalog_data :: "CatalogUpdateRequest \<Rightarrow> nat \<Rightarrow> MenuItem_row \<Rightarrow> MenuItem_row" where
  "apply_catalog_data body t r =
     r\<lparr>mi_status := (case cm_isActive body of None \<Rightarrow> mi_status r | Some b \<Rightarrow> b),
       mi_price := (case cm_price body of None \<Rightarrow> mi_price r | Some p \<Rightarrow> p),
       mi_K := (case cm_K body of None \<Rightarrow> mi_K r | Some k \<Rightarrow> k),
       mi_other := (case cm_other body of None \<Rightarrow> mi_other r | Some v \<Rightarrow> v),
       mi_updated_at := t\<rparr>"

definition MenuItem_findFirst_where ::
  "string \<Rightarrow> world \<Rightarrow> (string + MenuItem_row option) \<times> world" where
  \<comment> \<open>Modelled from the spec: the store's \<open>select\<close>, called through the client of
      \<open>@/lib/prisma\<close> as \<open>prisma.menuItem.findFirst({ where: { name } })\<close>: the first
      row with the name, if any; \<open>Inl\<close> when the client throws.\<close>
  "MenuItem_findFirst_where nm w =
     ((case rejects w (MenuItem_findFirst nm) of
         Some msg \<Rightarrow> Inl msg
       | None \<Rightarrow> Inr (find (\<lambda>r. mi_name r = nm) (MenuItem_table w))),
      issue (MenuItem_findFirst nm) w)"

definition MenuItem_updateMany_where ::
  "string \<Rightarrow> (MenuItem_row \<Rightarrow> MenuItem_row) \<Rightarrow> world \<Rightarrow> (string + nat) \<times> world" where
  \<comment> \<open>Modelled from the spec: the store's \<open>update\<close>, called through the client of
      \<open>@/lib/prisma\<close> as \<open>prisma.menuItem.updateMany({ where: { name }, data })\<close>: the
      count of the rows updated; \<open>Inl\<close> when the client throws.\<close>
  "MenuItem_updateMany_where nm upd w =
     (let w' = issue (MenuItem_updateMany nm) w in
      case rejects w (MenuItem_updateMany nm) of
        Some msg \<Rightarrow> (Inl msg, w')
      | None \<Rightarrow>
          (Inr (length (filter (\<lambda>r. mi_name r = nm) (MenuItem_table w))),
           w'\<lparr>MenuItem_table :=
                map (\<lambda>r. if mi_name r = nm then upd r else r) (MenuItem_table w)\<rparr>))"

definition interleave :: "world \<Rightarrow> world" where
  \<comment> \<open>Modelled from the spec: the writes of other clients that the store orders between
      the two statements of one request.\<close>
  "interleave w = w\<lparr>MenuItem_table := others w (MenuItem_table w)\<rparr>"

text \<open>
  \<open>PUT /menu\<close>. The lookup and the update are started together (\<open>Promise.all\<close>) and
  both run; the handler answers 500 when either throws, and otherwise decides on the
  two results.
\<close>

definition PUT_menu_decide :: "MenuItem_row option \<Rightarrow> nat \<Rightarrow> unit NextResponse" where
  "PUT_menu_decide existingItem count =
     (if existingItem = None \<or> count = 0
      then createErrorResponse ''Available menu item not found'' 404 None
      else createSuccessResponse (success_true\<lparr>updatedCount := Some count\<rparr>))"

definition PUT_menu :: "CatalogUpdateRequest option \<Rightarrow> world \<Rightarrow> unit NextResponse \<times> world" where
  "PUT_menu request w0 =
     (case request of
        None \<Rightarrow> (createErrorResponse ''Error updating available menu item'' 500 None, w0)
      | Some body \<Rightarrow>
         (let (existingItem, w1) = MenuItem_findFirst_where (cm_name body) w0;
              (updatedItem, w2) =
                MenuItem_updateMany_where (cm_name body)
                  (apply_catalog_data body (now w1)) (interleave w1)
          in (case existingItem of
                Inl _ \<Rightarrow> (createErrorResponse ''Error updating available menu item'' 500 None, w2)
              | Inr found \<Rightarrow>
                 (case updatedItem of
                    Inl _ \<Rightarrow>
                      (createErrorResponse ''Error updating available menu item'' 500 None, w2)
                  | Inr count \<Rightarrow> (PUT_menu_decide found count, w2)))))"

section \<open>Example worlds\<close>

definition admin_profile :: Profile where
  "admin_profile = \<lparr>p_id = ''hq'', p_company_code = ''HQ'', p_role = ''admin'',
     p_store_name = None, p_group = None, p_company_id = Some ''admin''\<rparr>"

definition store_profile :: Profile where
  "store_profile = \<lparr>p_id = ''u2'', p_company_code = ''STORE1'', p_role = ''store'',
     p_store_name = Some ''Shibuya'', p_group = None, p_company_id = Some ''STORE1''\<rparr>"

definition world0 :: world where
  \<comment> \<open>a headquarters user \<open>hq\<close>, who holds the session, and a store user \<open>u2\<close>\<close>
  "world0 =
     \<lparr>cookie_session = Some \<lparr>user_id = ''hq'', user_metadata_company_code = Some ''HQ''\<rparr>,
      session_error = None,
      identities =
        [''hq'' \<mapsto> \<lparr>idn_email = ''HQ@example.com'', idn_password = ''pw'',
                      idn_company_code = ''HQ'', idn_role = ''admin''\<rparr>,
         ''u2'' \<mapsto> \<lparr>idn_email = ''STORE1@example.com'', idn_password = ''pw'',
                      idn_company_code = ''STORE1'', idn_role = ''store''\<rparr>],
      next_user_id = ''u3'',
      Profiles_table = [''hq'' \<mapsto> admin_profile, ''u2'' \<mapsto> store_profile],
      StoreItem_table = [], MenuCsv_table = [], StoreMenuItem_table = [],
      Ingredient_table = [], MenuItem_table = [],
      others = (\<lambda>rows. rows), now = 0, rejects = (\<lambda>c. None), calls = []\<rparr>"

definition world_read_fails :: world where
  \<comment> \<open>the store refuses the read of the profile of \<open>hq\<close>\<close>
  "world_read_fails =
     world0\<lparr>rejects := (\<lambda>c. None)(Profiles_select ''hq'' \<mapsto> ''connection lost'')\<rparr>"

definition world_insert_fails :: world where
  \<comment> \<open>the store refuses the profile of the next user\<close>
  "world_insert_fails =
     world0\<lparr>rejects := (\<lambda>c. None)(Profiles_insert ''u3'' \<mapsto> ''connection lost'')\<rparr>"

definition world_delete_fails :: world where
  \<comment> \<open>the store refuses the profile of the next user, and the provider refuses to delete that user\<close>
  "world_delete_fails =
     world0\<lparr>rejects := (\<lambda>c. None)(Profiles_insert ''u3'' \<mapsto> ''connection lost'',
                                   Auth_admin_deleteUser ''u3'' \<mapsto> ''connection lost'')\<rparr>"

definition new_store_request :: CreateUserRequest where
  "new_store_request = \<lparr>cu_companyCode = Some ''S9'', cu_password = Some ''secret'',
     cu_role = Some ''store'', cu_storeName = Some ''Ueno'', cu_group = None\<rparr>"

definition group_only_patch :: UpdateUserRequest where
  "group_only_patch = \<lparr>uu_company_code = None, uu_password = None, uu_role = None,
     uu_store_name = None, uu_group = Some ''Kanto''\<rparr>"

definition store_name_patch :: UpdateUserRequest where
  "store_name_patch = \<lparr>uu_company_code = None, uu_password = Some ''changed'',
     uu_role = Some ''store'', uu_store_name = Some ''Ginza'', uu_group = None\<rparr>"

definition ramen_store_row :: StoreMenuItem_row where
  "ramen_store_row = \<lparr>smi_store_id = ''STORE1'', smi_menu_name = ''Ramen'', smi_status = True,
     smi_price = 800, smi_updated_at = 1\<rparr>"

definition store_item :: "int \<Rightarrow> int \<Rightarrow> string \<Rightarrow> StoreItem_row" where
  "store_item i m n = \<lparr>si_store_menu_item_id = i, si_menu_id = m, si_menu_name = n,
     si_price = 800, si_status = True, si_store_id = ''STORE1''\<rparr>"

definition world_store :: world where
  \<comment> \<open>as \<open>world0\<close>, the store user \<open>u2\<close> holding the session; the store lists menu 10 twice\<close>
  "world_store =
     world0\<lparr>cookie_session :=
                Some \<lparr>user_id = ''u2'', user_metadata_company_code = Some ''STORE1''\<rparr>,
            StoreItem_table :=
              [store_item 1 10 ''Ramen'', store_item 2 20 ''Gyoza'', store_item 3 10 ''Ramen''],
            MenuCsv_table := [\<lparr>menu_sys = ''10'', menu_code = ''M-010''\<rparr>],
            StoreMenuItem_table := [ramen_store_row],
            Ingredient_table :=
              [\<lparr>ing_ingredient_id = 1, ing_material_system_code = ''MAT-1'', ing_name = ''Noodles'',
                ing_date = ''2024-01-01'', ing_quantity = 5, ing_store_id = ''STORE1''\<rparr>],
            now := 2\<rparr>"

definition world_update_fails :: world where
  \<comment> \<open>the store refuses the update of the store's Ramen\<close>
  "world_update_fails =
     world_store\<lparr>rejects :=
       (\<lambda>c. None)(StoreMenuItem_update ''STORE1'' ''Ramen'' \<mapsto> ''permission denied'')\<rparr>"

definition world_anonymous :: world where
  \<comment> \<open>as \<open>world_store\<close>, the cookies resolving to no session\<close>
  "world_anonymous = world_store\<lparr>cookie_session := None\<rparr>"

definition activate_ramen :: UpdateMenuItemRequest where
  "activate_ramen = \<lparr>um_name = ''Ramen'', um_isActive = Some True, um_price = None\<rparr>"

definition ramen_catalog_row :: MenuItem_row where
  "ramen_catalog_row = \<lparr>mi_menu_id = 10, mi_name = ''Ramen'', mi_price = 8, mi_status = True,
     mi_description = None, mi_K = False, mi_other = None, mi_updated_at = 1\<rparr>"

definition world_catalog :: world where
  "world_catalog = world0\<lparr>MenuItem_table := [ramen_catalog_row], now := 2\<rparr>"

definition world_catalog_race :: world where
  \<comment> \<open>another client removes the rows between the lookup and the update\<close>
  "world_catalog_race = world_catalog\<lparr>others := (\<lambda>rows. [])\<rparr>"

definition price_patch :: CatalogUpdateRequest where
  "price_patch = \<lparr>cm_name = ''Ramen'', cm_isActive = None, cm_price = Some 12.5,
     cm_K = None, cm_other = None\<rparr>"

section \<open>The provisioning workflow\<close>

lemma status_createErrorResponse:
  "status (createErrorResponse msg st det) = st"
  by (simp add: createErrorResponse_def)

lemma status_createSuccessResponse:
  "status (createSuccessResponse d) = 200"
  by (simp add: createSuccessResponse_def)

lemma Profiles_insert_error_frame:
  "Profiles_insert_error uid (w\<lparr>calls := c, identities := i\<rparr>) = Profiles_insert_error uid w"
  by (simp add: Profiles_insert_error_def split: option.split)

lemmas POST_users_steps =
  POST_users_def auth_getSession_def Profiles_single_def auth_admin_createUser_def
  Profiles_insert_row_def auth_admin_deleteUser_def issue_def Let_def

lemmas PATCH_user_steps =
  PATCH_user_def auth_getSession_def Profiles_single_def auth_admin_updateUserById_def
  Profiles_update_single_def issue_def Let_def

lemmas DELETE_user_steps =
  DELETE_user_def Profiles_single_def auth_admin_deleteUser_def Profiles_delete_eq_def
  issue_def Let_def

text \<open>
  C1, as the code has it. Take a \<open>createUser\<close> call that gets as far as the profile
  insertion: the required fields are there, the read of the caller's profile shows an
  administrator and the provider creates the identity. If the store then refuses the profile (\<open>msg\<close>), the
  handler asks the provider to delete the identity it has just created before it
  returns, and it answers 400 with the insertion's message (the default text when that
  message is empty); the \<open>Profiles\<close> table is as before. The answer of the provider to
  the deletion is not looked at: the identity is gone when the provider carries the
  deletion out, and it stays, without a profile, when the provider refuses.
\<close>

theorem createUser_compensation:
  assumes req: "truthy (cu_companyCode body)" "truthy (cu_password body)" "truthy (cu_role body)"
    and admin: "cookie_session w = Some s" "rejects w (Profiles_select (user_id s)) = None"
      "Profiles_table w (user_id s) = Some a" "p_role a = ''admin''"
    and created:
      "rejects w (Auth_admin_createUser (the (cu_companyCode body) @ ''@example.com'')) = None"
    and insert_fails: "Profiles_insert_error (next_user_id w) w = Some msg"
  shows "fst (POST_users (Some body) w)
           = createErrorResponse (or_else msg MSG_PROFILE_CREATE_FAILED) 400 None
       \<and> calls (snd (POST_users (Some body) w))
           = calls w @ [Auth_getSession, Profiles_select (user_id s),
                        Auth_admin_createUser (the (cu_companyCode body) @ ''@example.com''),
                        Profiles_insert (next_user_id w), Auth_admin_deleteUser (next_user_id w)]
       \<and> Profiles_table (snd (POST_users (Some body) w)) = Profiles_table w
       \<and> identities (snd (POST_users (Some body) w))
           = (if rejects w (Auth_admin_deleteUser (next_user_id w)) = None
              then (identities w)(next_user_id w := None)
              else (identities w)(next_user_id w \<mapsto>
                     \<lparr>idn_email = the (cu_companyCode body) @ ''@example.com'',
                      idn_password = the (cu_password body),
                      idn_company_code = the (cu_companyCode body),
                      idn_role = the (cu_role body)\<rparr>))"
proof (cases "rejects w (Auth_admin_deleteUser (next_user_id w))")
  case None
  with assms show ?thesis
    by (simp add: POST_users_steps Profiles_insert_error_frame)
next
  case (Some e)
  with assms show ?thesis
    by (simp add: POST_users_steps Profiles_insert_error_frame)
qed

theorem createUser_compensation_witness:
  "Profiles_insert_error (next_user_id world_insert_fails) world_insert_fails
     = Some ''connection lost''
   \<and> fst (POST_users (Some new_store_request) world_insert_fails)
       = createErrorResponse ''connection lost'' 400 None
   \<and> calls (snd (POST_users (Some new_store_request) world_insert_fails))
       = [Auth_getSession, Profiles_select ''hq'', Auth_admin_createUser ''S9@example.com'',
          Profiles_insert ''u3'', Auth_admin_deleteUser ''u3'']
   \<and> identities (snd (POST_users (Some new_store_request) world_insert_fails)) ''u3'' = None"
proof -
  have req: "truthy (cu_companyCode new_store_request)" "truthy (cu_password new_store_request)"
    "truthy (cu_role new_store_request)"
    by (simp_all add: new_store_request_def truthy_def)
  have admin: "cookie_session world_insert_fails
                 = Some \<lparr>user_id = ''hq'', user_metadata_company_code = Some ''HQ''\<rparr>"
    "rejects world_insert_fails
       (Profiles_select (user_id \<lparr>user_id = ''hq'', user_metadata_company_code = Some ''HQ''\<rparr>))
       = None"
    "Profiles_table world_insert_fails
       (user_id \<lparr>user_id = ''hq'', user_metadata_company_code = Some ''HQ''\<rparr>) = Some admin_profile"
    "p_role admin_profile = ''admin''"
    by (simp_all add: world_insert_fails_def world0_def admin_profile_def
          new_store_request_def)
  have created: "rejects world_insert_fails
      (Auth_admin_createUser (the (cu_companyCode new_store_request) @ ''@example.com'')) = None"
    by (simp add: world_insert_fails_def world0_def admin_profile_def
          new_store_request_def)
  have fails: "Profiles_insert_error (next_user_id world_insert_fails) world_insert_fails
                 = Some ''connection lost''"
    by (simp add: world_insert_fails_def world0_def admin_profile_def
          new_store_request_def Profiles_insert_error_def)
  from createUser_compensation [OF req admin created fails] fails show ?thesis
    by (simp add: world_insert_fails_def world0_def admin_profile_def
          new_store_request_def or_else_def)
qed

theorem createUser_orphan_identity_counterexample:
  "identities world_delete_fails ''u3'' = None
   \<and> Profiles_insert_error ''u3'' world_delete_fails = Some ''connection lost''
   \<and> calls (snd (POST_users (Some new_store_request) world_delete_fails))
       = [Auth_getSession, Profiles_select ''hq'', Auth_admin_createUser ''S9@example.com'',
          Profiles_insert ''u3'', Auth_admin_deleteUser ''u3'']
   \<and> status (fst (POST_users (Some new_store_request) world_delete_fails)) = 400
   \<and> identities (snd (POST_users (Some new_store_request) world_delete_fails)) ''u3''
       = Some \<lparr>idn_email = ''S9@example.com'', idn_password = ''secret'',
               idn_company_code = ''S9'', idn_role = ''store''\<rparr>
   \<and> Profiles_table (snd (POST_users (Some new_store_request) world_delete_fails)) ''u3'' = None"
  by (simp add: POST_users_steps Profiles_insert_error_def world_delete_fails_def world0_def
        admin_profile_def new_store_request_def truthy_def createErrorResponse_def)

text \<open>
  C2, as the code has it. Take a \<open>deleteUser\<close> call whose target has a profile with the
  role \<open>admin\<close>. The handler issues one call only, the read of the target's profile:
  neither deletion is invoked, and the identities and the profiles are what they were.
  It answers 403 when the store gives the profile; when the store answers the read
  with an error, the handler answers 404, as it does for a target without a profile.
\<close>

theorem deleteUser_admin_no_deletion:
  assumes "Profiles_table w uid = Some p" and "p_role p = ''admin''"
  shows "fst (DELETE_user uid w)
           = (case rejects w (Profiles_select uid) of
                None \<Rightarrow> createErrorResponse MSG_ADMIN_NOT_DELETABLE 403 None
              | Some _ \<Rightarrow> createErrorResponse MSG_USER_FETCH_FAILED 404 None)
       \<and> calls (snd (DELETE_user uid w)) = calls w @ [Profiles_select uid]
       \<and> Auth_admin_deleteUser uid \<notin> set (drop (length (calls w)) (calls (snd (DELETE_user uid w))))
       \<and> Profiles_delete uid \<notin> set (drop (length (calls w)) (calls (snd (DELETE_user uid w))))
       \<and> identities (snd (DELETE_user uid w)) = identities w
       \<and> Profiles_table (snd (DELETE_user uid w)) = Profiles_table w"
  using assms by (simp add: DELETE_user_steps split: option.split)

theorem deleteUser_admin_no_deletion_witness:
  "Profiles_table world0 ''hq'' = Some admin_profile \<and> p_role admin_profile = ''admin''
   \<and> rejects world0 (Profiles_select ''hq'') = None
   \<and> status (fst (DELETE_user ''hq'' world0)) = 403
   \<and> calls (snd (DELETE_user ''hq'' world0)) = [Profiles_select ''hq'']
   \<and> identities (snd (DELETE_user ''hq'' world0)) ''hq'' = identities world0 ''hq''
   \<and> Profiles_table (snd (DELETE_user ''hq'' world0)) ''hq'' = Some admin_profile"
proof -
  have target: "Profiles_table world0 ''hq'' = Some admin_profile"
    by (simp add: world0_def)
  have role: "p_role admin_profile = ''admin''"
    by (simp add: admin_profile_def)
  have fresh: "calls world0 = []" "rejects world0 (Profiles_select ''hq'') = None"
    by (simp_all add: world0_def)
  from deleteUser_admin_no_deletion [OF target role] target role fresh show ?thesis
    by (simp add: status_createErrorResponse)
qed

theorem deleteUser_admin_read_fails_counterexample:
  "Profiles_table world_read_fails ''hq'' = Some admin_profile
   \<and> p_role admin_profile = ''admin''
   \<and> fst (DELETE_user ''hq'' world_read_fails)
       = createErrorResponse MSG_USER_FETCH_FAILED 404 None
   \<and> status (fst (DELETE_user ''hq'' world_read_fails)) = 404"
  by (simp add: DELETE_user_steps world_read_fails_def world0_def admin_profile_def
        status_createErrorResponse)

text \<open>
  C3. \<open>DELETE /users/{userId}\<close> checks neither a session nor the caller: its answer
  and its effect are the same whatever the cookies resolve to, it never calls
  \<open>getSession\<close>, its first call is the read of the target's profile, and it answers
  403 exactly when that read gives a profile with the role \<open>admin\<close>.
\<close>

theorem DELETE_user_no_caller_check:
  "fst (DELETE_user uid (w\<lparr>cookie_session := c, session_error := e\<rparr>)) = fst (DELETE_user uid w)
   \<and> snd (DELETE_user uid (w\<lparr>cookie_session := c, session_error := e\<rparr>))
       = (snd (DELETE_user uid w))\<lparr>cookie_session := c, session_error := e\<rparr>
   \<and> Auth_getSession \<notin> set (drop (length (calls w)) (calls (snd (DELETE_user uid w))))
   \<and> take 1 (drop (length (calls w)) (calls (snd (DELETE_user uid w)))) = [Profiles_select uid]
   \<and> (status (fst (DELETE_user uid w)) = 403
        \<longleftrightarrow> (rejects w (Profiles_select uid) = None
             \<and> (\<exists>p. Profiles_table w uid = Some p \<and> p_role p = ''admin'')))"
  by (simp add: DELETE_user_steps createErrorResponse_def createSuccessResponse_def
        split: option.splits)

theorem DELETE_user_no_caller_check_witness:
  "fst (DELETE_user ''u2'' (world0\<lparr>cookie_session := None, session_error := None\<rparr>))
     = createSuccessResponse success_true
   \<and> fst (DELETE_user ''u2'' world0) = createSuccessResponse success_true
   \<and> Profiles_table (snd (DELETE_user ''u2'' (world0\<lparr>cookie_session := None, session_error := None\<rparr>))) ''u2''
       = None"
proof -
  have here: "fst (DELETE_user ''u2'' world0) = createSuccessResponse success_true"
    "Profiles_table (snd (DELETE_user ''u2'' world0)) ''u2'' = None"
    by (simp_all add: DELETE_user_steps world0_def store_profile_def)
  from DELETE_user_no_caller_check [where uid = "''u2''" and w = world0 and c = None and e = None] here show ?thesis
    by simp
qed

text \<open>
  C4, as the code has it. Take an \<open>updateUser\<close> call that passes the administrator
  check (the read of the caller's profile shows an administrator), whose credentials update (if the patch asks for one) and whose profile
  update are carried out. Afterwards the target's \<open>store_name\<close> is null unless the
  role given in the patch is \<open>store\<close>: a patch without a role sets it to null whatever
  the existing role is. When the role of the patch is \<open>store\<close>, \<open>store_name\<close> is the
  one of the patch, or its former value when the patch has none. The role itself
  changes only when the patch gives one.
\<close>

theorem updateUser_store_name:
  assumes admin: "cookie_session w = Some s" "rejects w (Profiles_select (user_id s)) = None"
      "Profiles_table w (user_id s) = Some a" "p_role a = ''admin''"
    and auth_ok: "(\<not> truthy (uu_company_code body) \<and> \<not> truthy (uu_password body))
                  \<or> (rejects w (Auth_admin_updateUserById uid) = None \<and> identities w uid \<noteq> None)"
    and target: "Profiles_table w uid = Some p"
    and upd_ok: "rejects w (Profiles_update uid) = None"
  shows "map_option p_store_name (Profiles_table (snd (PATCH_user uid (Inr body) w)) uid)
           = Some (if uu_role body = Some ''store''
                   then (case uu_store_name body of None \<Rightarrow> p_store_name p | Some n \<Rightarrow> Some n)
                   else None)
       \<and> map_option p_role (Profiles_table (snd (PATCH_user uid (Inr body) w)) uid)
           = Some (case uu_role body of None \<Rightarrow> p_role p | Some r \<Rightarrow> r)
       \<and> fst (PATCH_user uid (Inr body) w)
           = createSuccessResponse
               (success_true\<lparr>data := Some (apply_ProfileUpdate (PATCH_updateData body) p)\<rparr>)"
proof -
  have applied: "Profiles_table (snd (PATCH_user uid (Inr body) w)) uid
                   = Some (apply_ProfileUpdate (PATCH_updateData body) p)
               \<and> fst (PATCH_user uid (Inr body) w)
                   = createSuccessResponse
                      (success_true\<lparr>data := Some (apply_ProfileUpdate (PATCH_updateData body) p)\<rparr>)"
  proof (cases "truthy (uu_company_code body)")
    case True
    with auth_ok obtain i where "rejects w (Auth_admin_updateUserById uid) = None"
      "identities w uid = Some i" by auto
    with True admin target upd_ok show ?thesis by (simp add: PATCH_user_steps)
  next
    case no_code: False
    show ?thesis
    proof (cases "truthy (uu_password body)")
      case True
      with auth_ok obtain i where "rejects w (Auth_admin_updateUserById uid) = None"
        "identities w uid = Some i" by auto
      with True no_code admin target upd_ok show ?thesis by (simp add: PATCH_user_steps)
    next
      case False
      with no_code admin target upd_ok show ?thesis by (simp add: PATCH_user_steps)
    qed
  qed
  have store_name: "p_store_name (apply_ProfileUpdate (PATCH_updateData body) p)
      = (if uu_role body = Some ''store''
         then (case uu_store_name body of None \<Rightarrow> p_store_name p | Some n \<Rightarrow> Some n)
         else None)"
    by (simp add: apply_ProfileUpdate_def PATCH_updateData_def split: option.split)
  have role: "p_role (apply_ProfileUpdate (PATCH_updateData body) p)
      = (case uu_role body of None \<Rightarrow> p_role p | Some r \<Rightarrow> r)"
    by (simp add: apply_ProfileUpdate_def PATCH_updateData_def)
  from applied store_name role show ?thesis by simp
qed

theorem updateUser_store_name_witness:
  "Profiles_table world0 ''u2'' = Some store_profile
   \<and> rejects world0 (Auth_admin_updateUserById ''u2'') = None
   \<and> rejects world0 (Profiles_update ''u2'') = None
   \<and> map_option p_store_name
        (Profiles_table (snd (PATCH_user ''u2'' (Inr store_name_patch) world0)) ''u2'')
       = Some (Some ''Ginza'')
   \<and> map_option p_role
        (Profiles_table (snd (PATCH_user ''u2'' (Inr store_name_patch) world0)) ''u2'')
       = Some ''store''"
proof -
  have admin: "cookie_session world0
                 = Some \<lparr>user_id = ''hq'', user_metadata_company_code = Some ''HQ''\<rparr>"
    "rejects world0
       (Profiles_select (user_id \<lparr>user_id = ''hq'', user_metadata_company_code = Some ''HQ''\<rparr>))
       = None"
    "Profiles_table world0
       (user_id \<lparr>user_id = ''hq'', user_metadata_company_code = Some ''HQ''\<rparr>) = Some admin_profile"
    "p_role admin_profile = ''admin''"
    by (simp_all add: world0_def admin_profile_def store_profile_def
          store_name_patch_def)
  have auth_ok: "(\<not> truthy (uu_company_code store_name_patch) \<and> \<not> truthy (uu_password store_name_patch))
      \<or> (rejects world0 (Auth_admin_updateUserById ''u2'') = None \<and> identities world0 ''u2'' \<noteq> None)"
    by (simp add: world0_def admin_profile_def store_profile_def
          store_name_patch_def)
  have target: "Profiles_table world0 ''u2'' = Some store_profile"
    by (simp add: world0_def admin_profile_def store_profile_def
          store_name_patch_def)
  have upd_ok: "rejects world0 (Profiles_update ''u2'') = None"
    by (simp add: world0_def admin_profile_def store_profile_def
          store_name_patch_def)
  from updateUser_store_name [OF admin auth_ok target upd_ok] target upd_ok show ?thesis
    by (simp add: world0_def admin_profile_def store_profile_def
          store_name_patch_def)
qed

theorem updateUser_patch_without_role_counterexample:
  "uu_role group_only_patch = None
   \<and> map_option p_role (Profiles_table world0 ''u2'') = Some ''store''
   \<and> map_option p_store_name (Profiles_table world0 ''u2'') = Some (Some ''Shibuya'')
   \<and> status (fst (PATCH_user ''u2'' (Inr group_only_patch) world0)) = 200
   \<and> map_option p_role
        (Profiles_table (snd (PATCH_user ''u2'' (Inr group_only_patch) world0)) ''u2'')
       = Some ''store''
   \<and> map_option p_store_name
        (Profiles_table (snd (PATCH_user ''u2'' (Inr group_only_patch) world0)) ''u2'')
       = Some None"
  by (simp add: PATCH_user_steps apply_ProfileUpdate_def PATCH_updateData_def truthy_def
        createSuccessResponse_def world0_def admin_profile_def store_profile_def
        group_only_patch_def)

section \<open>The store menu\<close>

lemma findIndex_from_takeWhile:
  "findIndex_from k P xs =
     (if \<exists>x \<in> set xs. P x then int (k + length (takeWhile (\<lambda>x. \<not> P x) xs)) else - 1)"
  by (induction xs arbitrary: k) auto

lemma findIndex_takeWhile:
  "x \<in> set xs \<Longrightarrow> P x \<Longrightarrow> findIndex P xs = int (length (takeWhile (\<lambda>x. \<not> P x) xs))"
  by (auto simp add: findIndex_def findIndex_from_takeWhile)

lemma length_takeWhile_prefix:
  "length (takeWhile (\<lambda>t. f t \<noteq> a) (pre @ x # xs)) = length pre \<longleftrightarrow>
     (a \<notin> f ` set pre \<and> f x = a)" if "f x = a"
  using that by (induction pre) auto

lemma filter_zip_keep_first:
  "map fst (filter (\<lambda>(item, index).
        int index = findIndex (\<lambda>t. si_menu_id t = si_menu_id item) (pre @ xs))
      (zip xs [length pre ..< length pre + length xs]))
   = keep_first (si_menu_id ` set pre) xs"
proof (induction xs arbitrary: pre)
  case Nil
  show ?case by simp
next
  case (Cons x xs)
  have idx: "[length pre ..< length pre + length (x # xs)]
               = length pre # [length (pre @ [x]) ..< length (pre @ [x]) + length xs]"
    by (simp add: upt_conv_Cons del: upt_Suc)
  have here: "findIndex (\<lambda>t. si_menu_id t = si_menu_id x) (pre @ x # xs)
               = int (length (takeWhile (\<lambda>t. si_menu_id t \<noteq> si_menu_id x) (pre @ x # xs)))"
    by (rule findIndex_takeWhile [of x]) simp_all
  have keep: "int (length pre) = findIndex (\<lambda>t. si_menu_id t = si_menu_id x) (pre @ x # xs)
               \<longleftrightarrow> si_menu_id x \<notin> si_menu_id ` set pre"
    using length_takeWhile_prefix [of si_menu_id x "si_menu_id x" pre xs] here by auto
  have rest: "map fst (filter (\<lambda>(item, index).
        int index = findIndex (\<lambda>t. si_menu_id t = si_menu_id item) (pre @ x # xs))
      (zip xs [length (pre @ [x]) ..< length (pre @ [x]) + length xs]))
     = keep_first (si_menu_id ` set (pre @ [x])) xs"
    using Cons.IH [of "pre @ [x]"] by simp
  show ?case
  proof (cases "si_menu_id x \<in> si_menu_id ` set pre")
    case True
    then have "si_menu_id ` set (pre @ [x]) = si_menu_id ` set pre" by auto
    with True keep rest idx show ?thesis by simp
  next
    case False
    have "si_menu_id ` set (pre @ [x]) = insert (si_menu_id x) (si_menu_id ` set pre)" by auto
    with False keep rest idx show ?thesis by simp
  qed
qed

lemma uniqueMenuItems_keep_first: "uniqueMenuItems xs = keep_first {} xs"
  using filter_zip_keep_first [of "[]" xs]
  by (simp add: uniqueMenuItems_def filter_indexed_def)

lemma keep_first_keys:
  "set (map si_menu_id (keep_first seen xs)) = si_menu_id ` set xs - seen"
  by (induction xs arbitrary: seen) auto

lemma keep_first_fresh: "x \<in> set (keep_first seen xs) \<Longrightarrow> si_menu_id x \<notin> seen"
  by (induction xs arbitrary: seen) (auto split: if_splits)

lemma keep_first_distinct: "distinct (map si_menu_id (keep_first seen xs))"
  by (induction xs arbitrary: seen) (auto dest: keep_first_fresh)

lemma keep_first_subseq: "subseq (keep_first seen xs) xs"
  by (induction xs arbitrary: seen) auto

lemma findIndex_first:
  assumes "i < length xs" and "P (xs ! i)"
  shows "findIndex P xs = int i \<longleftrightarrow> (\<forall>j<i. \<not> P (xs ! j))"
proof -
  let ?n = "length (takeWhile (\<lambda>x. \<not> P x) xs)"
  have fi: "findIndex P xs = int ?n"
    using assms by (intro findIndex_takeWhile [of "xs ! i"]) simp_all
  have le: "?n \<le> i"
  proof (rule ccontr)
    assume "\<not> ?n \<le> i"
    then have "i < ?n" by simp
    then have "xs ! i \<in> set (takeWhile (\<lambda>x. \<not> P x) xs)"
      by (metis takeWhile_nth nth_mem)
    then have "\<not> P (xs ! i)" by (rule set_takeWhileD [THEN conjunct2])
    with assms show False by simp
  qed
  show ?thesis
  proof
    assume "findIndex P xs = int i"
    with fi have eq: "?n = i" by simp
    show "\<forall>j<i. \<not> P (xs ! j)"
    proof (intro allI impI)
      fix j assume "j < i"
      with eq have "j < ?n" by simp
      then have "xs ! j \<in> set (takeWhile (\<lambda>x. \<not> P x) xs)"
        by (metis takeWhile_nth nth_mem)
      then show "\<not> P (xs ! j)" by (rule set_takeWhileD [THEN conjunct2])
    qed
  next
    assume "\<forall>j<i. \<not> P (xs ! j)"
    then have "i \<le> ?n"
      using assms by (intro length_takeWhile_less_P_nth) simp_all
    with le fi show "findIndex P xs = int i" by simp
  qed
qed

lemma uniqueMenuItems_positions:
  "uniqueMenuItems xs =
     map (\<lambda>i. xs ! i)
       (filter (\<lambda>i. \<forall>j<i. si_menu_id (xs ! j) \<noteq> si_menu_id (xs ! i)) [0..<length xs])"
proof -
  have zip: "zip xs [0..<length xs] = map (\<lambda>i. (xs ! i, i)) [0..<length xs]"
    by (rule nth_equalityI) simp_all
  have "filter (\<lambda>i. int i = findIndex (\<lambda>t. si_menu_id t = si_menu_id (xs ! i)) xs) [0..<length xs]
      = filter (\<lambda>i. \<forall>j<i. si_menu_id (xs ! j) \<noteq> si_menu_id (xs ! i)) [0..<length xs]"
  proof (rule filter_cong [OF refl])
    fix i assume "i \<in> set [0..<length xs]"
    then have "i < length xs" by simp
    from findIndex_first [of i xs "\<lambda>t. si_menu_id t = si_menu_id (xs ! i)", OF this]
    show "(int i = findIndex (\<lambda>t. si_menu_id t = si_menu_id (xs ! i)) xs)
            = (\<forall>j<i. si_menu_id (xs ! j) \<noteq> si_menu_id (xs ! i))"
      by (simp add: eq_commute [of "int i"])
  qed
  then show ?thesis
    by (simp add: uniqueMenuItems_def filter_indexed_def zip filter_map o_def)
qed

lemma store_scope_frame:
  "snd (store_scope w) = w\<lparr>calls := calls (snd (store_scope w))\<rparr>"
  by (simp add: store_scope_def auth_getSession_def Profiles_single_def issue_def Let_def
      split: option.split sum.split prod.split)

lemma store_scope_reads:
  "rejects (snd (store_scope w)) = rejects w"
  "StoreItem_table (snd (store_scope w)) = StoreItem_table w"
  "MenuCsv_table (snd (store_scope w)) = MenuCsv_table w"
  "StoreMenuItem_table (snd (store_scope w)) = StoreMenuItem_table w"
  "now (snd (store_scope w)) = now w"
  by (subst store_scope_frame, simp)+

lemma t_menuId_transformItem: "t_menuId (transformItem csvs item) = si_menu_id item"
  by (simp add: transformItem_def)

lemma GET_menu_items_in_scope:
  assumes "fst (store_scope w) = Inr cid"
  shows "fst (GET_menu_items w) =
           createSuccessResponse
             (success_true\<lparr>data :=
                (case rejects w (StoreItem_select cid) of
                   Some _ \<Rightarrow> None
                 | None \<Rightarrow>
                     Some (map (transformItem
                                 (case rejects w MenuCsv_select of
                                    None \<Rightarrow> Some (MenuCsv_table w) | Some _ \<Rightarrow> None))
                            (uniqueMenuItems
                               (filter (\<lambda>r. si_store_id r = cid) (StoreItem_table w)))))\<rparr>)"
proof -
  obtain w2 where sc: "store_scope w = (Inr cid, w2)"
    using assms by (cases "store_scope w") simp
  from store_scope_reads [of w] have w2: "rejects w2 = rejects w"
    "StoreItem_table w2 = StoreItem_table w" "MenuCsv_table w2 = MenuCsv_table w"
    by (simp_all add: sc)
  show ?thesis
    by (simp add: GET_menu_items_def sc StoreItem_select_eq_def MenuCsv_select_all_def
          issue_def Let_def w2 split: option.split)
qed

lemma GET_menu_items_refused:
  assumes "fst (store_scope w) = Inl (st, msg)"
  shows "fst (GET_menu_items w) = createErrorResponse msg st None"
proof -
  obtain w2 where sc: "store_scope w = (Inl (st, msg), w2)"
    using assms by (cases "store_scope w") simp
  show ?thesis by (simp add: GET_menu_items_def sc)
qed

text \<open>
  C7. Take a \<open>listStoreMenu\<close> call that succeeds with \<open>data\<close>. The caller passed the
  store checks with some \<open>company_id\<close>, and with \<open>rows\<close> the store's rows of
  \<open>StoreItem\<close> in fetch order: the records are one per row that the handler keeps, in
  that order; the rows kept are exactly the first occurrences of their \<open>menu_id\<close>
  (\<open>keep_first\<close>), a subsequence of \<open>rows\<close>, namely the rows at the positions before
  which no row has the same \<open>menu_id\<close>; every \<open>menu_id\<close> of \<open>rows\<close> has its record;
  and no two records have the same \<open>menuId\<close>.
\<close>

theorem listStoreMenu_no_duplicate_menu_id:
  assumes ok: "fst (GET_menu_items w) = createSuccessResponse b"
    and records: "data b = Some records"
  shows "\<exists>cid csvs.
           fst (store_scope w) = Inr cid
           \<and> records = map (transformItem csvs)
                 (uniqueMenuItems (filter (\<lambda>r. si_store_id r = cid) (StoreItem_table w)))
           \<and> uniqueMenuItems (filter (\<lambda>r. si_store_id r = cid) (StoreItem_table w))
               = keep_first {} (filter (\<lambda>r. si_store_id r = cid) (StoreItem_table w))
           \<and> subseq (uniqueMenuItems (filter (\<lambda>r. si_store_id r = cid) (StoreItem_table w)))
                (filter (\<lambda>r. si_store_id r = cid) (StoreItem_table w))
           \<and> uniqueMenuItems (filter (\<lambda>r. si_store_id r = cid) (StoreItem_table w))
               = map (\<lambda>i. filter (\<lambda>r. si_store_id r = cid) (StoreItem_table w) ! i)
                   (filter (\<lambda>i. \<forall>j<i.
                        si_menu_id (filter (\<lambda>r. si_store_id r = cid) (StoreItem_table w) ! j)
                          \<noteq> si_menu_id (filter (\<lambda>r. si_store_id r = cid) (StoreItem_table w) ! i))
                      [0..<length (filter (\<lambda>r. si_store_id r = cid) (StoreItem_table w))])
           \<and> map t_menuId records
               = map si_menu_id
                   (uniqueMenuItems (filter (\<lambda>r. si_store_id r = cid) (StoreItem_table w)))
           \<and> set (map t_menuId records)
               = si_menu_id ` set (filter (\<lambda>r. si_store_id r = cid) (StoreItem_table w))
           \<and> distinct (map t_menuId records)"
proof (cases "fst (store_scope w)")
  case (Inl refusal)
  then obtain st msg where "fst (store_scope w) = Inl (st, msg)" by (cases refusal) simp
  from GET_menu_items_refused [OF this] ok show ?thesis
    by (simp add: createErrorResponse_def createSuccessResponse_def)
next
  case (Inr cid)
  let ?rows = "filter (\<lambda>r. si_store_id r = cid) (StoreItem_table w)"
  let ?csvs = "case rejects w MenuCsv_select of None \<Rightarrow> Some (MenuCsv_table w) | Some _ \<Rightarrow> None"
  from GET_menu_items_in_scope [OF Inr] ok records
  have recs: "records = map (transformItem ?csvs) (uniqueMenuItems ?rows)"
    by (simp add: createSuccessResponse_def success_true_def split: option.splits)
  have ids: "map t_menuId records = map si_menu_id (uniqueMenuItems ?rows)"
    by (simp add: recs t_menuId_transformItem o_def)
  have kf: "uniqueMenuItems ?rows = keep_first {} ?rows"
    by (rule uniqueMenuItems_keep_first)
  have sub: "subseq (uniqueMenuItems ?rows) ?rows"
    by (simp add: kf keep_first_subseq)
  have keys: "set (map t_menuId records) = si_menu_id ` set ?rows"
    using keep_first_keys [of "{}" ?rows] by (simp add: ids kf)
  have dist: "distinct (map t_menuId records)"
    by (simp add: ids kf keep_first_distinct)
  have pos: "uniqueMenuItems ?rows
      = map (\<lambda>i. ?rows ! i)
          (filter (\<lambda>i. \<forall>j<i. si_menu_id (?rows ! j) \<noteq> si_menu_id (?rows ! i))
             [0..<length ?rows])"
    by (rule uniqueMenuItems_positions)
  from Inr recs kf sub pos ids keys dist show ?thesis by blast
qed

lemma world_store_in_scope: "fst (store_scope world_store) = Inr ''STORE1''"
  by (simp add: store_scope_def auth_getSession_def Profiles_single_def issue_def Let_def
        truthy_def world_store_def world0_def store_profile_def)

lemma toString_examples: "toString 10 = ''10''" "toString 20 = ''20''"
  by (simp_all add: toString_def)

theorem listStoreMenu_no_duplicate_menu_id_witness:
  "fst (GET_menu_items world_store)
     = createSuccessResponse (success_true\<lparr>data := Some
         [\<lparr>t_id = 1, t_menuId = 10, t_menu_code = Some ''M-010'', t_name = ''Ramen'',
           t_price = 800, t_isActive = True\<rparr>,
          \<lparr>t_id = 2, t_menuId = 20, t_menu_code = None, t_name = ''Gyoza'',
           t_price = 800, t_isActive = True\<rparr>]\<rparr>)
   \<and> distinct (map t_menuId
         [\<lparr>t_id = 1, t_menuId = 10, t_menu_code = Some ''M-010'', t_name = ''Ramen'',
           t_price = 800, t_isActive = True\<rparr>,
          \<lparr>t_id = 2, t_menuId = 20, t_menu_code = None, t_name = ''Gyoza'',
           t_price = 800, t_isActive = True\<rparr>])"
proof -
  let ?records = "[\<lparr>t_id = 1, t_menuId = 10, t_menu_code = Some ''M-010'', t_name = ''Ramen'',
           t_price = 800, t_isActive = True\<rparr>,
          \<lparr>t_id = 2, t_menuId = 20, t_menu_code = None, t_name = ''Gyoza'',
           t_price = 800, t_isActive = True\<rparr>]"
  have rows: "filter (\<lambda>r. si_store_id r = ''STORE1'') (StoreItem_table world_store)
      = [store_item 1 10 ''Ramen'', store_item 2 20 ''Gyoza'', store_item 3 10 ''Ramen'']"
    by (simp add: world_store_def world0_def store_item_def)
  have tables: "rejects world_store = (\<lambda>c. None)"
    "MenuCsv_table world_store = [\<lparr>menu_sys = ''10'', menu_code = ''M-010''\<rparr>]"
    by (simp_all add: world_store_def world0_def)
  have ok: "fst (GET_menu_items world_store)
              = createSuccessResponse (success_true\<lparr>data := Some ?records\<rparr>)"
    by (simp add: GET_menu_items_in_scope [OF world_store_in_scope] rows tables
          uniqueMenuItems_keep_first transformItem_def store_item_def toString_examples)
  have records: "data (success_true\<lparr>data := Some ?records\<rparr>) = Some ?records"
    by simp
  from listStoreMenu_no_duplicate_menu_id [OF ok records] ok show ?thesis
    by blast
qed

lemma world_update_fails_in_scope: "fst (store_scope world_update_fails) = Inr ''STORE1''"
  by (simp add: store_scope_def auth_getSession_def Profiles_single_def issue_def Let_def
        truthy_def world_update_fails_def world_store_def world0_def store_profile_def)

text \<open>
  C5, as the code has it. Take an \<open>updateStoreMenuItem\<close> request that passes the
  session and store checks and whose body has \<open>isActive\<close>. When the store carries the
  update out, the \<open>status\<close> written to every row of the caller's store with the given
  name is the negation of the requested \<open>isActive\<close>, and the response echoes
  \<open>isActive\<close> as that negated value. When the store answers the update with an error,
  no row changes and the response is a 500 error, which has no \<open>isActive\<close>.
\<close>

theorem updateStoreMenuItem_inverts_isActive:
  assumes scope: "fst (store_scope w) = Inr cid"
    and active: "um_isActive body = Some b"
  shows "fst (PUT_menu_items (Some body) w)
           = (case rejects w (StoreMenuItem_update cid (um_name body)) of
                None \<Rightarrow> createSuccessResponse (success_true\<lparr>isActive := Some (\<not> b)\<rparr>)
              | Some _ \<Rightarrow>
                  createErrorResponse ''Unable to update menu item. Please try again later.''
                    500 None)
       \<and> StoreMenuItem_table (snd (PUT_menu_items (Some body) w))
           = (case rejects w (StoreMenuItem_update cid (um_name body)) of
                None \<Rightarrow>
                  map (\<lambda>r. if smi_store_id r = cid \<and> smi_menu_name r = um_name body
                            then r\<lparr>smi_status := \<not> b,
                                   smi_price := (case um_price body of
                                                   None \<Rightarrow> smi_price r | Some p \<Rightarrow> p),
                                   smi_updated_at := now w\<rparr>
                            else r)
                    (StoreMenuItem_table w)
              | Some _ \<Rightarrow> StoreMenuItem_table w)"
proof -
  obtain w2 where sc: "store_scope w = (Inr cid, w2)"
    using scope by (cases "store_scope w") simp
  from store_scope_reads [of w] have w2: "rejects w2 = rejects w"
    "StoreMenuItem_table w2 = StoreMenuItem_table w" "now w2 = now w"
    by (simp_all add: sc)
  show ?thesis
    by (simp add: PUT_menu_items_def sc StoreMenuItem_update_eq_def
          apply_StoreMenuItemUpdate_def issue_def Let_def w2 active split: option.split)
qed

theorem updateStoreMenuItem_inverts_isActive_witness:
  "um_isActive activate_ramen = Some True
   \<and> fst (PUT_menu_items (Some activate_ramen) world_store)
       = createSuccessResponse (success_true\<lparr>isActive := Some False\<rparr>)
   \<and> map smi_status (StoreMenuItem_table (snd (PUT_menu_items (Some activate_ramen) world_store)))
       = [False]"
proof -
  have active: "um_isActive activate_ramen = Some True"
    by (simp add: activate_ramen_def)
  have accepted: "rejects world_store (StoreMenuItem_update ''STORE1'' (um_name activate_ramen)) = None"
    "StoreMenuItem_table world_store = [ramen_store_row]"
    by (simp_all add: world_store_def world0_def)
  from updateStoreMenuItem_inverts_isActive [OF world_store_in_scope active] active show ?thesis
    by (simp add: accepted) (simp add: ramen_store_row_def activate_ramen_def)
qed

theorem updateStoreMenuItem_update_refused_counterexample:
  "um_isActive activate_ramen = Some True
   \<and> fst (store_scope world_update_fails) = Inr ''STORE1''
   \<and> fst (PUT_menu_items (Some activate_ramen) world_update_fails)
       = createErrorResponse ''Unable to update menu item. Please try again later.'' 500 None
   \<and> map smi_status
        (StoreMenuItem_table (snd (PUT_menu_items (Some activate_ramen) world_update_fails)))
       = [True]"
  by (simp add: PUT_menu_items_def store_scope_def auth_getSession_def Profiles_single_def
        StoreMenuItem_update_eq_def issue_def Let_def truthy_def world_update_fails_def world_store_def
        world0_def store_profile_def ramen_store_row_def activate_ramen_def)

section \<open>The catalog menu\<close>

text \<open>
  C6, as the code has it. Take an \<open>updateMenuItem\<close> call in which neither statement
  throws. The handler reports success, with the count of the rows updated, when the
  lookup finds a row and that count is not 0. It answers 404 when the lookup finds no
  row, and also when the lookup finds a row and the count is 0.
\<close>

theorem updateMenuItem_response:
  assumes "rejects w (MenuItem_findFirst (cm_name body)) = None"
    and "rejects w (MenuItem_updateMany (cm_name body)) = None"
  shows "fst (PUT_menu (Some body) w)
           = (if find (\<lambda>r. mi_name r = cm_name body) (MenuItem_table w) = None
                 \<or> length (filter (\<lambda>r. mi_name r = cm_name body) (others w (MenuItem_table w))) = 0
              then createErrorResponse ''Available menu item not found'' 404 None
              else createSuccessResponse
                     (success_true\<lparr>updatedCount :=
                        Some (length (filter (\<lambda>r. mi_name r = cm_name body)
                                        (others w (MenuItem_table w))))\<rparr>))"
  using assms
  by (simp add: PUT_menu_def MenuItem_findFirst_where_def MenuItem_updateMany_where_def
        interleave_def PUT_menu_decide_def issue_def Let_def)

theorem updateMenuItem_response_witness:
  "fst (PUT_menu (Some price_patch) world_catalog)
     = createSuccessResponse (success_true\<lparr>updatedCount := Some 1\<rparr>)"
proof -
  have ok: "rejects world_catalog (MenuItem_findFirst (cm_name price_patch)) = None"
    "rejects world_catalog (MenuItem_updateMany (cm_name price_patch)) = None"
    by (simp_all add: world_catalog_def world0_def ramen_catalog_row_def
          price_patch_def)
  have table: "MenuItem_table world_catalog = [ramen_catalog_row]"
    "others world_catalog = (\<lambda>rows. rows)"
    "mi_name ramen_catalog_row = cm_name price_patch"
    by (simp_all add: world_catalog_def world0_def ramen_catalog_row_def
          price_patch_def)
  from updateMenuItem_response [OF ok] show ?thesis
    by (simp add: table)
qed

theorem updateMenuItem_zero_count_counterexample:
  "find (\<lambda>r. mi_name r = cm_name price_patch) (MenuItem_table world_catalog_race)
     = Some ramen_catalog_row
   \<and> fst (PUT_menu (Some price_patch) world_catalog_race)
       = createErrorResponse ''Available menu item not found'' 404 None"
  by (simp add: PUT_menu_def MenuItem_findFirst_where_def MenuItem_updateMany_where_def
        interleave_def PUT_menu_decide_def issue_def Let_def world_catalog_race_def world_catalog_def world0_def
        ramen_catalog_row_def price_patch_def)

text \<open>
  When no other client writes in between, the lookup finds a row exactly when the
  update counts one, and 404 means that no row has the name.
\<close>

lemma updateMenuItem_sequential:
  assumes "rejects w (MenuItem_findFirst (cm_name body)) = None"
    and "rejects w (MenuItem_updateMany (cm_name body)) = None"
    and "others w = (\<lambda>rows. rows)"
  shows "status (fst (PUT_menu (Some body) w)) = 404
           \<longleftrightarrow> (\<forall>r \<in> set (MenuItem_table w). mi_name r \<noteq> cm_name body)"
  using assms
  by (auto simp add: PUT_menu_def MenuItem_findFirst_where_def MenuItem_updateMany_where_def
        interleave_def PUT_menu_decide_def issue_def Let_def find_None_iff filter_empty_conv
        status_createErrorResponse status_createSuccessResponse)

text \<open>
  C10, as the code has it. Take an \<open>updateMenuItem\<close> call whose patch has \<open>price\<close>
  only and whose update does not throw. In every row with the given name, \<open>price\<close>
  becomes the patch's price and \<open>updated_at\<close> becomes the time of the call; every
  other column of those rows, and every other row, is as it was.
\<close>

theorem updateMenuItem_price_only:
  assumes only_price: "cm_price body = Some pr" "cm_isActive body = None" "cm_K body = None"
      "cm_other body = None"
    and "rejects w (MenuItem_updateMany (cm_name body)) = None"
  shows "MenuItem_table (snd (PUT_menu (Some body) w))
           = map (\<lambda>r. if mi_name r = cm_name body
                       then r\<lparr>mi_price := pr, mi_updated_at := now w\<rparr> else r)
               (others w (MenuItem_table w))"
  using assms
  by (simp add: PUT_menu_def MenuItem_findFirst_where_def MenuItem_updateMany_where_def
        interleave_def apply_catalog_data_def issue_def Let_def split: sum.split)

theorem updateMenuItem_price_only_witness:
  "MenuItem_table (snd (PUT_menu (Some price_patch) world_catalog))
     = [ramen_catalog_row\<lparr>mi_price := 12.5, mi_updated_at := 2\<rparr>]"
proof -
  have only_price: "cm_price price_patch = Some 12.5" "cm_isActive price_patch = None"
    "cm_K price_patch = None" "cm_other price_patch = None"
    by (simp_all add: price_patch_def)
  have ok: "rejects world_catalog (MenuItem_updateMany (cm_name price_patch)) = None"
    by (simp add: world_catalog_def world0_def ramen_catalog_row_def
          price_patch_def)
  have table: "MenuItem_table world_catalog = [ramen_catalog_row]"
    "others world_catalog = (\<lambda>rows. rows)" "now world_catalog = 2"
    "mi_name ramen_catalog_row = cm_name price_patch"
    by (simp_all add: world_catalog_def world0_def ramen_catalog_row_def
          price_patch_def)
  from updateMenuItem_price_only [OF only_price ok] show ?thesis
    by (simp add: table)
qed

theorem updateMenuItem_updated_at_counterexample:
  "cm_price price_patch = Some 12.5 \<and> cm_isActive price_patch = None \<and> cm_K price_patch = None \<and> cm_other price_patch = None
   \<and> map mi_updated_at (MenuItem_table world_catalog) = [1]
   \<and> map mi_updated_at (MenuItem_table (snd (PUT_menu (Some price_patch) world_catalog))) = [2]"
  by (simp add: PUT_menu_def MenuItem_findFirst_where_def MenuItem_updateMany_where_def
        interleave_def apply_catalog_data_def issue_def Let_def world_catalog_def world0_def ramen_catalog_row_def
        price_patch_def)

section \<open>The ingredients\<close>

text \<open>
  C8, at the failing input. With \<open>weekDates\<close> present and empty, \<open>split\<close> gives one
  empty date, the list of dates is not empty, and the handler answers 200 with an
  empty \<open>data\<close>; it answers 400 when the parameter is absent.
\<close>

theorem listIngredients_empty_weekDates_value:
  "split_comma '''' = ['''']
   \<and> fst (GET_ingredients [(''weekDates'', '''')] world_store)
       = createSuccessResponse (success_true\<lparr>data := Some []\<rparr>)
   \<and> status (fst (GET_ingredients [(''weekDates'', '''')] world_store)) = 200
   \<and> status (fst (GET_ingredients [] world_store)) = 400"
  by (simp add: GET_ingredients_def auth_getSession_def Ingredient_select_eq_in_def
        object_truthy_def issue_def Let_def createErrorResponse_def createSuccessResponse_def
        world_store_def world0_def)

text \<open>
  C9, at the failing input. With dates given and no session for the request's
  cookies, the handler does not answer 401: it queries the \<open>Ingredient\<close> table and
  answers 200. Its test \<open>!session\<close> looks at the \<open>data\<close> object of \<open>getSession\<close>, which
  is an object whether or not it holds a session.
\<close>

theorem listIngredients_without_session:
  "cookie_session world_anonymous = None
   \<and> split_comma ''2024-01-01'' = [''2024-01-01'']
   \<and> status (fst (GET_ingredients [(''weekDates'', ''2024-01-01'')] world_anonymous)) = 200
   \<and> calls (snd (GET_ingredients [(''weekDates'', ''2024-01-01'')] world_anonymous))
       = [Auth_getSession, Ingredient_select]"
  by (simp add: GET_ingredients_def auth_getSession_def Ingredient_select_eq_in_def
        object_truthy_def issue_def Let_def createErrorResponse_def createSuccessResponse_def
        world_anonymous_def world_store_def world0_def)

text \<open>
  For every request: the 401 of the handler is never given, and a request with the
  parameter present, whatever its value, is never answered 400.
\<close>

lemma GET_ingredients_never_401: "status (fst (GET_ingredients searchParams w)) \<noteq> 401"
  by (simp add: GET_ingredients_def auth_getSession_def Ingredient_select_eq_in_def
        object_truthy_def issue_def Let_def createErrorResponse_def createSuccessResponse_def
        split: option.split sum.split)

lemma split_comma_not_Nil: "split_comma s \<noteq> []"
  by (induction s) auto

lemma GET_ingredients_present_parameter:
  "map_of searchParams ''weekDates'' = Some v \<Longrightarrow>
   status (fst (GET_ingredients searchParams w)) \<noteq> 400"
  by (simp add: GET_ingredients_def auth_getSession_def Ingredient_select_eq_in_def
        object_truthy_def issue_def Let_def createErrorResponse_def createSuccessResponse_def
        split_comma_not_Nil split: option.split sum.split)

end
